theory Spec2Isabelle
  imports Main "HOL-Library.Word"
begin

section \<open>The websocket shell bridge: data\<close>

text \<open>
  The package \<open>shell\<close> binds one websocket connection to at most one child process.
  The model keeps the names of the Go source. Strings are byte sequences (\<open>string\<close>),
  a Go pointer \<open>*int\<close> is an \<open>int option\<close>, the \<open>int64\<close> timestamp is a
  \<open>64 word\<close>, and a JSON object of strings is an association list.
\<close>

definition FORK :: string where "FORK = ''FORK''"
definition OPEN :: string where "OPEN = ''OPEN''"
definition EXEC :: string where "EXEC = ''EXEC''"
definition RESIZE :: string where "RESIZE = ''RESIZE''"
definition SIGNAL :: string where "SIGNAL = ''SIGNAL''"

text \<open>Go's \<open>error\<close> values: the sentinel \<open>io.EOF\<close>, or any other error with its message.\<close>

datatype error = EOF | ErrorString string

text \<open>\<open>fmt.Sprint(err)\<close> prints \<open>err.Error()\<close>; \<open>io.EOF.Error()\<close> is \<open>"EOF"\<close>.\<close>

fun Sprint :: "error \<Rightarrow> string" where
  "Sprint EOF = ''EOF''"
| "Sprint (ErrorString s) = s"

text \<open>A nil interface or nil pointer that is dereferenced panics.\<close>

datatype panic = NilPointerDereference

text \<open>
  An \<open>io.Reader\<close> as the responder uses it: the successive outcomes of
  \<open>reader.Read(buffer)\<close> on a one-byte buffer, each the count \<open>n\<close>, the byte left in
  \<open>buffer[0]\<close> and the error. A read handle may be nil (\<open>None\<close>).
\<close>

type_synonym read_result = "nat \<times> char \<times> error option"
type_synonym reader = "read_result list"

text \<open>
  The \<open>process\<close> interface. Its implementations are outside the package, so a process is
  given by what each method returns: the read handles, the outcome of a write to
  \<open>Stdin()\<close>, and the errors of \<open>Resize\<close>, \<open>Wait\<close> and \<open>Kill\<close>.
\<close>

record process =
  Stdin_Write :: "string \<Rightarrow> error option"
  Stdout_reader :: "reader option"
  Stderr_reader :: "reader option"
  Resize :: "int option \<Rightarrow> int option \<Rightarrow> error option"
  Wait :: "error option"
  Kill :: "int option \<Rightarrow> error option"

record request =
  Action :: string
  Argv :: "string list"
  Signal :: "int option"
  TermName :: string
  TermCwd :: string
  TermCols :: "int option"
  TermRows :: "int option"
  TermUid :: "int option"
  TermGid :: "int option"
  TermEnv :: "(string \<times> string) list"

record response =
  Timestamp :: "64 word"
  Stdin :: string
  Stdout :: string
  Stderr :: string
  Result :: string

text \<open>The zero value of \<open>response\<close> (\<open>var response response\<close>).\<close>

definition zero_response :: response where
  "zero_response = \<lparr>Timestamp = 0, Stdin = [], Stdout = [], Stderr = [], Result = []\<rparr>"

text \<open>
  The three factories \<open>CreateTerminal\<close>, \<open>OpenTerminal\<close> and \<open>CreateCommand\<close> are
  declared elsewhere; they are parameters of the reader.
\<close>

record factories =
  CreateTerminal :: "string \<Rightarrow> string \<Rightarrow> string list \<Rightarrow> (string \<times> string) list \<Rightarrow> string
     \<Rightarrow> int option \<Rightarrow> int option \<Rightarrow> int option \<Rightarrow> int option \<Rightarrow> error + process"
  OpenTerminal :: "int option \<Rightarrow> int option \<Rightarrow> error + process"
  CreateCommand :: "string \<Rightarrow> string list \<Rightarrow> error + process"

text \<open>
  What the session does to the outside, in the order it does it: a send on the channel
  \<open>wss.send\<close> (which is unbuffered: the frame goes to the writer), calls of the
  factories, calls on the child, the start of a responder goroutine
  (\<open>go wss.respond()\<close>) and the closing of the websocket.
\<close>

datatype action =
    send response
  | CreateTerminal_call string string "string list" "(string \<times> string) list" string
      "int option" "int option" "int option" "int option"
  | OpenTerminal_call "int option" "int option"
  | CreateCommand_call string "string list"
  | Resize_call "int option" "int option"
  | Kill_call "int option"
  | Stdin_Write_call string
  | Wait_call
  | Close_call
  | go_respond
  | ws_Close

text \<open>
  \<open>WebsocketShell\<close>: the child slot \<open>proc\<close> (nil is \<open>None\<close>). The channel \<open>send\<close>
  and the connection \<open>ws\<close> appear through what is done with them, in \<open>trace\<close>, oldest
  action first. The state also carries the wall clock: \<open>clock k\<close> is what the \<open>k\<close>-th
  call of \<open>time.Now().Unix()\<close> returns, and \<open>reads\<close> counts the calls made.
\<close>

record WebsocketShell =
  proc :: "process option"
  trace :: "action list"
  clock :: "nat \<Rightarrow> 64 word"
  reads :: nat

definition time_Now_Unix :: "WebsocketShell \<Rightarrow> 64 word \<times> WebsocketShell" where
  "time_Now_Unix wss = (clock wss (reads wss), wss\<lparr>reads := Suc (reads wss)\<rparr>)"

definition log_call :: "action \<Rightarrow> WebsocketShell \<Rightarrow> WebsocketShell" where
  "log_call a wss = wss\<lparr>trace := trace wss @ [a]\<rparr>"

text \<open>\<open>wss.send <- r\<close>\<close>

definition send_frame :: "response \<Rightarrow> WebsocketShell \<Rightarrow> WebsocketShell" where
  "send_frame r wss = log_call (send r) wss"

text \<open>\<open>wss.send <- response{Timestamp: time.Now().Unix(), Result: msg}\<close> and its siblings.\<close>

definition send_Result :: "string \<Rightarrow> WebsocketShell \<Rightarrow> WebsocketShell" where
  "send_Result msg wss =
     (case time_Now_Unix wss of (t, wss') \<Rightarrow> send_frame (zero_response\<lparr>Timestamp := t, Result := msg\<rparr>) wss')"

definition send_Stdin :: "string \<Rightarrow> WebsocketShell \<Rightarrow> WebsocketShell" where
  "send_Stdin msg wss =
     (case time_Now_Unix wss of (t, wss') \<Rightarrow> send_frame (zero_response\<lparr>Timestamp := t, Stdin := msg\<rparr>) wss')"

definition send_Stdout :: "string \<Rightarrow> WebsocketShell \<Rightarrow> WebsocketShell" where
  "send_Stdout msg wss =
     (case time_Now_Unix wss of (t, wss') \<Rightarrow> send_frame (zero_response\<lparr>Timestamp := t, Stdout := msg\<rparr>) wss')"

definition send_Stderr :: "string \<Rightarrow> WebsocketShell \<Rightarrow> WebsocketShell" where
  "send_Stderr msg wss =
     (case time_Now_Unix wss of (t, wss') \<Rightarrow> send_frame (zero_response\<lparr>Timestamp := t, Stderr := msg\<rparr>) wss')"

section \<open>The reader\<close>

text \<open>\<open>strings.Join(a, sep)\<close>\<close>

fun strings_Join :: "string list \<Rightarrow> string \<Rightarrow> string" where
  "strings_Join [] sep = []"
| "strings_Join [x] sep = x"
| "strings_Join (x # y # ys) sep = x @ sep @ strings_Join (y # ys) sep"

text \<open>
  \<open>tx\<close> writes its input to the child's stdin. On a write error it sends the frame
  \<open>message failed to send\<close> and returns the error; otherwise it sends the echo frame
  and returns nil. It panics when \<open>wss.proc\<close> is nil.
\<close>

definition tx :: "string \<Rightarrow> WebsocketShell \<Rightarrow> panic + (error option \<times> WebsocketShell)" where
  "tx input wss =
     (case proc wss of
        None \<Rightarrow> Inl NilPointerDereference
      | Some p \<Rightarrow>
          (case Stdin_Write p input of
             Some err \<Rightarrow>
               Inr (Some err, send_Result ''message failed to send'' (log_call (Stdin_Write_call input) wss))
           | None \<Rightarrow>
               Inr (None, send_Stdin input (log_call (Stdin_Write_call input) wss))))"

text \<open>
  One pass through the body of the loop of \<open>Reader\<close>, for a request that
  \<open>ReadJSON\<close> decoded. \<open>file\<close> and \<open>args\<close> are \<open>Argv[0]\<close> and \<open>Argv[1:]\<close> when
  they exist, and the zero values otherwise. In the branch for an absent child the
  statement \<open>go wss.respond()\<close> follows the \<open>switch\<close>: the three \<open>continue\<close>
  statements skip it, the other paths through the \<open>switch\<close> reach it.
\<close>

definition Reader_body :: "factories \<Rightarrow> request \<Rightarrow> WebsocketShell \<Rightarrow> panic + WebsocketShell" where
  "Reader_body fs req wss =
     (if Action req = [] then
        Inr (send_Result (''required field 'Action'' @ [CHR 0x27]) wss)
      else
        let name = TermName req; cwd = TermCwd req; env = TermEnv req;
            cols = TermCols req; rows = TermRows req; uid = TermUid req; gid = TermGid req;
            signal = Signal req;
            file = (if length (Argv req) > 0 then hd (Argv req) else []);
            args = (if length (Argv req) > 1 then tl (Argv req) else [])
        in
        (case proc wss of
           None \<Rightarrow>
             if Action req = FORK then
               if length (Argv req) = 0 then
                 Inr (send_Result (''missing required field 'Argv'' @ [CHR 0x27]) wss)
               else
                 let wss1 = log_call (CreateTerminal_call name file args env cwd cols rows uid gid) wss;
                     wss2 = (case CreateTerminal fs name file args env cwd cols rows uid gid of
                               Inl err \<Rightarrow> send_Result ''unable to fork pty'' wss1
                             | Inr term \<Rightarrow> wss1\<lparr>proc := Some term\<rparr>)
                 in Inr (log_call go_respond wss2)
             else if Action req = OPEN then
               let wss1 = log_call (OpenTerminal_call cols rows) wss;
                   wss2 = (case OpenTerminal fs cols rows of
                             Inl err \<Rightarrow> send_Result ''unable to open pty'' wss1
                           | Inr term \<Rightarrow> wss1\<lparr>proc := Some term\<rparr>)
               in Inr (log_call go_respond wss2)
             else if Action req = EXEC then
               if length (Argv req) = 0 then
                 Inr (send_Result (''missing required field 'Argv'' @ [CHR 0x27]) wss)
               else
                 let wss1 = log_call (CreateCommand_call file args) wss;
                     wss2 = (case CreateCommand fs file args of
                               Inl err \<Rightarrow> send_Result ''unable to run exec'' wss1
                             | Inr cmd \<Rightarrow> wss1\<lparr>proc := Some cmd\<rparr>)
                 in Inr (log_call go_respond wss2)
             else
               Inr (send_Result ''no running process'' wss)
         | Some p \<Rightarrow>
             if Action req = RESIZE then Inr (log_call (Resize_call cols rows) wss)
             else if Action req = SIGNAL then Inr (log_call (Kill_call signal) wss)
             else if Action req = EXEC then
               (case tx (strings_Join (Argv req) '' '') wss of
                  Inl pn \<Rightarrow> Inl pn
                | Inr (err, wss') \<Rightarrow> Inr wss')
             else Inr wss))"

text \<open>
  The loop of \<open>Reader\<close> over the outcomes of \<open>ReadJSON\<close> (\<open>None\<close> is a decode
  error): a decode error leaves the loop and closes the websocket. When the outcomes
  run out the reader is waiting in \<open>ReadJSON\<close>.
\<close>

fun Reader :: "factories \<Rightarrow> request option list \<Rightarrow> WebsocketShell \<Rightarrow> panic + WebsocketShell" where
  "Reader fs [] wss = Inr wss"
| "Reader fs (None # rs) wss = Inr (log_call ws_Close wss)"
| "Reader fs (Some req # rs) wss =
     (case Reader_body fs req wss of
        Inl pn \<Rightarrow> Inl pn
      | Inr wss' \<Rightarrow> Reader fs rs wss')"

section \<open>The responder\<close>

subsection \<open>The per-stream reader \<open>pipe\<close>\<close>

text \<open>
  \<open>pipe\<close> makes the channel \<open>bchan\<close> with a buffer of 1024 bytes and the unbuffered
  channel \<open>echan\<close>, and starts a goroutine. The goroutine is modelled by the channel
  sends it performs, in program order: on a nil reader the single send of \<open>io.EOF\<close>
  on \<open>echan\<close>; otherwise one send on \<open>bchan\<close> for each read with \<open>n > 0\<close>, and at
  the first read with \<open>n = 0\<close> the send of that read's error on \<open>echan\<close>, after which
  it returns. When the outcomes of \<open>Read\<close> run out the goroutine is waiting in \<open>Read\<close>.
\<close>

datatype chan_op = bchan_send char | echan_send "error option"

fun pipe_loop :: "reader \<Rightarrow> chan_op list" where
  "pipe_loop [] = []"
| "pipe_loop ((n, b, err) # rs) = (if n > 0 then bchan_send b # pipe_loop rs else [echan_send err])"

text \<open>
  The state of one stream: the sends the goroutine has still to perform, and the bytes
  that wait in the buffer of \<open>bchan\<close>.
\<close>

record pipe_chans =
  goroutine :: "chan_op list"
  bchan :: "char list"

definition pipe :: "reader option \<Rightarrow> pipe_chans" where
  "pipe reader =
     (case reader of
        None \<Rightarrow> \<lparr>goroutine = [echan_send (Some EOF)], bchan = []\<rparr>
      | Some r \<Rightarrow> \<lparr>goroutine = pipe_loop r, bchan = []\<rparr>)"

text \<open>
  The goroutine runs until its next send has happened or blocks: a send on \<open>bchan\<close>
  goes through while the buffer holds fewer than 1024 bytes; a send on the unbuffered
  \<open>echan\<close> waits for the responder to receive.
\<close>

definition pipe_run :: "pipe_chans \<Rightarrow> pipe_chans" where
  "pipe_run ch =
     (case goroutine ch of
        bchan_send b # ops \<Rightarrow>
          if length (bchan ch) < 1024 then \<lparr>goroutine = ops, bchan = bchan ch @ [b]\<rparr> else ch
      | _ \<Rightarrow> ch)"

subsection \<open>The select loop\<close>

text \<open>The local variables of \<open>respond\<close>.\<close>

record respond_vars =
  eof :: bool
  stdoutBuf :: string
  stderrBuf :: string

text \<open>What one \<open>select\<close> receives.\<close>

datatype event =
    stdoutMsg char
  | stdoutErr "error option"
  | stderrMsg char
  | stderrErr "error option"
  | time_After

text \<open>
  The body of the \<open>select\<close> for one received event. The result says whether
  \<open>respond\<close> returns (\<open>True\<close>) or goes round the loop again. \<open>wss.proc.Wait()\<close>
  panics on a nil \<open>wss.proc\<close>.
\<close>

fun respond_select :: "event \<Rightarrow> respond_vars \<Rightarrow> WebsocketShell
    \<Rightarrow> panic + (bool \<times> respond_vars \<times> WebsocketShell)" where
  "respond_select (stdoutMsg m) v wss =
     (let v1 = v\<lparr>stdoutBuf := stdoutBuf v @ [m]\<rparr> in
      if m = CHR 0x0A then Inr (False, v1\<lparr>stdoutBuf := []\<rparr>, send_Stdout (stdoutBuf v1) wss)
      else Inr (False, v1, wss))"
| "respond_select (stdoutErr e) v wss =
     (if e = Some EOF then
        let (v1, wss1) = (if length (stdoutBuf v) > 0
                          then (v\<lparr>stdoutBuf := []\<rparr>, send_Stdout (stdoutBuf v) wss)
                          else (v, wss))
        in
        if eof v1 then
          (case proc wss1 of
             None \<Rightarrow> Inl NilPointerDereference
           | Some p \<Rightarrow>
               (case Wait p of
                  Some err \<Rightarrow> Inr (True, v1, send_Result (Sprint err) (log_call Wait_call wss1))
                | None \<Rightarrow> Inr (True, v1, send_Result ''0'' (log_call Wait_call wss1))))
        else Inr (False, v1\<lparr>eof := True\<rparr>, wss1)
      else Inr (True, v, send_Result ''connection closed unexpectedly'' wss))"
| "respond_select (stderrMsg m) v wss =
     (let v1 = v\<lparr>stderrBuf := stderrBuf v @ [m]\<rparr> in
      if m = CHR 0x0A then Inr (False, v1\<lparr>stderrBuf := []\<rparr>, send_Stderr (stderrBuf v1) wss)
      else Inr (False, v1, wss))"
| "respond_select (stderrErr e) v wss =
     (if e = Some EOF then
        let (v1, wss1) = (if length (stderrBuf v) > 0
                          then (v\<lparr>stderrBuf := []\<rparr>, send_Stderr (stderrBuf v) wss)
                          else (v, wss))
        in
        if eof v1 then
          (case proc wss1 of
             None \<Rightarrow> Inl NilPointerDereference
           | Some p \<Rightarrow>
               (case Wait p of
                  Some err \<Rightarrow> Inr (True, v1, send_Result (Sprint err) (log_call Wait_call wss1))
                | None \<Rightarrow> Inr (True, v1, send_Result ''0'' (log_call Wait_call wss1))))
        else Inr (False, v1\<lparr>eof := True\<rparr>, wss1)
      else Inr (True, v, send_Result ''connection closed unexpectedly'' wss))"
| "respond_select time_After v wss =
     (let response = zero_response; submit = False;
          (response, v, submit) = (if length (stdoutBuf v) > 0
             then (response\<lparr>Stdout := stdoutBuf v\<rparr>, v\<lparr>stdoutBuf := []\<rparr>, True)
             else (response, v, submit));
          (response, v, submit) = (if length (stderrBuf v) > 0
             then (response\<lparr>Stderr := stderrBuf v\<rparr>, v\<lparr>stderrBuf := []\<rparr>, True)
             else (response, v, submit))
      in if submit then Inr (False, v, send_frame response wss) else Inr (False, v, wss))"

text \<open>
  The scheduler decides which goroutine runs and which ready case a \<open>select\<close> takes;
  a schedule is the list of its decisions. A receive from \<open>bchan\<close> is ready when the
  buffer holds a byte, a receive from \<open>echan\<close> when the goroutine waits to send on it;
  the timer case may be taken at any point. A decision for a case that is not ready
  has no effect.
\<close>

datatype decision =
    run_stdout_pipe
  | run_stderr_pipe
  | case_stdoutMsg
  | case_stdoutErr
  | case_stderrMsg
  | case_stderrErr
  | case_time_After

fun poll :: "decision \<Rightarrow> pipe_chans \<times> pipe_chans \<Rightarrow> event option \<times> pipe_chans \<times> pipe_chans" where
  "poll run_stdout_pipe (out, err) = (None, pipe_run out, err)"
| "poll run_stderr_pipe (out, err) = (None, out, pipe_run err)"
| "poll case_stdoutMsg (out, err) =
     (case bchan out of
        [] \<Rightarrow> (None, out, err)
      | m # ms \<Rightarrow> (Some (stdoutMsg m), out\<lparr>bchan := ms\<rparr>, err))"
| "poll case_stdoutErr (out, err) =
     (case goroutine out of
        echan_send e # ops \<Rightarrow> (Some (stdoutErr e), out\<lparr>goroutine := ops\<rparr>, err)
      | _ \<Rightarrow> (None, out, err))"
| "poll case_stderrMsg (out, err) =
     (case bchan err of
        [] \<Rightarrow> (None, out, err)
      | m # ms \<Rightarrow> (Some (stderrMsg m), out, err\<lparr>bchan := ms\<rparr>))"
| "poll case_stderrErr (out, err) =
     (case goroutine err of
        echan_send e # ops \<Rightarrow> (Some (stderrErr e), out, err\<lparr>goroutine := ops\<rparr>)
      | _ \<Rightarrow> (None, out, err))"
| "poll case_time_After (out, err) = (Some time_After, out, err)"

text \<open>
  The \<open>for\<close> loop of \<open>respond\<close> under a schedule. When the schedule runs out the
  responder is still in its loop (\<open>False\<close>).
\<close>

fun respond_loop :: "decision list \<Rightarrow> pipe_chans \<times> pipe_chans \<Rightarrow> respond_vars \<Rightarrow> WebsocketShell
    \<Rightarrow> panic + (bool \<times> respond_vars \<times> WebsocketShell)" where
  "respond_loop [] chans v wss = Inr (False, v, wss)"
| "respond_loop (d # ds) chans v wss =
     (case poll d chans of
        (None, chans') \<Rightarrow> respond_loop ds chans' v wss
      | (Some e, chans') \<Rightarrow>
          (case respond_select e v wss of
             Inl pn \<Rightarrow> Inl pn
           | Inr (True, v', wss') \<Rightarrow> Inr (True, v', wss')
           | Inr (False, v', wss') \<Rightarrow> respond_loop ds chans' v' wss'))"

definition respond_vars0 :: respond_vars where
  "respond_vars0 = \<lparr>eof = False, stdoutBuf = [], stderrBuf = []\<rparr>"

text \<open>
  \<open>respond\<close>: \<open>wss.proc.Stdout()\<close> panics on a nil \<open>wss.proc\<close>. When the loop
  returns, the deferred function closes the channels, calls \<open>wss.proc.Close()\<close> and
  sets \<open>wss.proc\<close> to nil.
\<close>

definition respond :: "decision list \<Rightarrow> WebsocketShell \<Rightarrow> panic + (bool \<times> WebsocketShell)" where
  "respond sched wss =
     (case proc wss of
        None \<Rightarrow> Inl NilPointerDereference
      | Some p \<Rightarrow>
          (case respond_loop sched (pipe (Stdout_reader p), pipe (Stderr_reader p)) respond_vars0 wss of
             Inl pn \<Rightarrow> Inl pn
           | Inr (False, v, wss') \<Rightarrow> Inr (False, wss')
           | Inr (True, v, wss') \<Rightarrow> Inr (True, (log_call Close_call wss')\<lparr>proc := None\<rparr>)))"

section \<open>Shapes of traces\<close>

text \<open>
  An output frame carries stdout or stderr bytes only. A line frame is an output frame
  of one stream whose payload is not empty and ends with the line feed.
\<close>

fun output_frame :: "action \<Rightarrow> bool" where
  "output_frame (send f) = (Stdin f = [] \<and> Result f = [])"
| "output_frame a = False"

fun line_frame :: "action \<Rightarrow> bool" where
  "line_frame (send f) =
     ((Stdout f \<noteq> [] \<and> last (Stdout f) = CHR 0x0A \<and> Stderr f = []
        \<or> Stderr f \<noteq> [] \<and> last (Stderr f) = CHR 0x0A \<and> Stdout f = [])
      \<and> Stdin f = [] \<and> Result f = [])"
| "line_frame a = False"

text \<open>
  How a responder that returns ends its trace: with the call of \<open>Wait\<close> followed by
  the frame of the exit status, or with the frame \<open>connection closed unexpectedly\<close>.
\<close>

fun exit_or_failure :: "process \<Rightarrow> action list \<Rightarrow> bool" where
  "exit_or_failure p [Wait_call, send f] =
     (Stdin f = [] \<and> Stdout f = [] \<and> Stderr f = []
      \<and> Result f = (case Wait p of None \<Rightarrow> ''0'' | Some err \<Rightarrow> Sprint err))"
| "exit_or_failure p [send f] =
     (Stdin f = [] \<and> Stdout f = [] \<and> Stderr f = [] \<and> Result f = ''connection closed unexpectedly'')"
| "exit_or_failure p fin = False"

section \<open>Sessions, requests and schedules used as examples\<close>

definition idle_session :: WebsocketShell where
  "idle_session = \<lparr>proc = None, trace = [], clock = (\<lambda>k. 1700000000 + of_nat k), reads = 0\<rparr>"

definition empty_request :: request where
  "empty_request = \<lparr>Action = [], Argv = [], Signal = None, TermName = [], TermCwd = [],
     TermCols = None, TermRows = None, TermUid = None, TermGid = None, TermEnv = []\<rparr>"

definition failing_factories :: factories where
  "failing_factories = \<lparr>
     CreateTerminal = (\<lambda>name file args env cwd cols rows uid gid. Inl (ErrorString ''fork/exec: no such file or directory'')),
     OpenTerminal = (\<lambda>cols rows. Inl (ErrorString ''out of pty devices'')),
     CreateCommand = (\<lambda>file args. Inl (ErrorString ''exec: not found''))\<rparr>"

definition fork_no_Argv :: request where
  "fork_no_Argv = empty_request\<lparr>Action := FORK, TermName := ''xterm''\<rparr>"

definition resize_request :: request where
  "resize_request = empty_request\<lparr>Action := RESIZE, TermCols := Some 80, TermRows := Some 24\<rparr>"

definition sh_child :: process where
  "sh_child = \<lparr>Stdin_Write = (\<lambda>input. None),
     Stdout_reader = Some [(1, CHR ''a'', None), (0, CHR 0x00, Some EOF)],
     Stderr_reader = None,
     Resize = (\<lambda>cols rows. None), Wait = None, Kill = (\<lambda>s. None)\<rparr>"

definition broken_child :: process where
  "broken_child = sh_child\<lparr>Stdin_Write := (\<lambda>input. Some (ErrorString ''write: broken pipe''))\<rparr>"

definition busy_session :: WebsocketShell where
  "busy_session = idle_session\<lparr>proc := Some sh_child\<rparr>"

definition exec_echo_hi :: request where
  "exec_echo_hi = empty_request\<lparr>Action := EXEC, Argv := [''echo'', ''hi'']\<rparr>"

definition exec_no_Argv :: request where
  "exec_no_Argv = empty_request\<lparr>Action := EXEC\<rparr>"

definition fork_sh :: request where
  "fork_sh = empty_request\<lparr>Action := FORK, Argv := [''/bin/sh''], TermCols := Some 80, TermRows := Some 24\<rparr>"

definition open_pty :: request where
  "open_pty = empty_request\<lparr>Action := OPEN\<rparr>"

definition exec_ls :: request where
  "exec_ls = empty_request\<lparr>Action := EXEC, Argv := [''/bin/ls'', ''-l'']\<rparr>"

text \<open>
  Three schedules for the child \<open>sh_child\<close>, which writes the byte \<open>a\<close> to stdout and
  exits, and has no stderr handle. In \<open>racing_schedule\<close> the stdout goroutine has put
  the byte into the buffer of \<open>bchan\<close> and waits to send \<open>io.EOF\<close> on \<open>echan\<close>;
  both receives are ready and the \<open>select\<close> takes the error first.
\<close>

definition racing_schedule :: "decision list" where
  "racing_schedule = [run_stdout_pipe, case_stdoutErr, case_stdoutMsg, case_stderrErr]"

definition orderly_schedule :: "decision list" where
  "orderly_schedule = [run_stdout_pipe, case_stdoutMsg, case_stdoutErr, case_stderrErr]"

definition prompt_schedule :: "decision list" where
  "prompt_schedule = [run_stdout_pipe, case_stdoutMsg, case_time_After]"

section \<open>Lemmas about the reader\<close>

lemmas send_defs = send_Result_def send_Stdin_def send_Stdout_def send_Stderr_def
  time_Now_Unix_def send_frame_def log_call_def zero_response_def

text \<open>\<open>strings.Join\<close> puts the separator between neighbours and nothing after the last string.\<close>

lemma strings_Join_concat:
  "xs \<noteq> [] \<Longrightarrow> strings_Join xs sep = concat (map (\<lambda>a. a @ sep) (butlast xs)) @ last xs"
  by (induction xs sep rule: strings_Join.induct) auto

lemma Reader_body_busy_EXEC:
  assumes "proc wss = Some p" and "Action req = EXEC"
  shows "Reader_body fs req wss =
           (case tx (strings_Join (Argv req) '' '') wss of Inl pn \<Rightarrow> Inl pn | Inr (err, wss') \<Rightarrow> Inr wss')"
  using assms by (simp add: Reader_body_def EXEC_def RESIZE_def SIGNAL_def)

lemma tx_busy:
  assumes "proc wss = Some p"
  shows "tx input wss = Inr (Stdin_Write p input,
           wss\<lparr>trace := trace wss @ [Stdin_Write_call input,
                  send (if Stdin_Write p input = None
                  then \<lparr>Timestamp = clock wss (reads wss), Stdin = input, Stdout = [], Stderr = [], Result = []\<rparr>
                  else \<lparr>Timestamp = clock wss (reads wss), Stdin = [], Stdout = [], Stderr = [],
                         Result = ''message failed to send''\<rparr>)],
                reads := Suc (reads wss)\<rparr>)"
  using assms
  by (cases "Stdin_Write p input") (simp_all add: tx_def send_defs)

section \<open>Lemmas about the responder\<close>

lemma respond_select_continue:
  assumes "respond_select e v wss = Inr (False, v', wss')"
  shows "proc wss' = proc wss \<and> (\<exists>out. trace wss' = trace wss @ out \<and> list_all output_frame out)"
proof (cases e)
  case (stdoutMsg m)
  with assms show ?thesis by (auto simp add: send_defs Let_def split: if_splits)
next
  case (stdoutErr x)
  with assms show ?thesis
    by (auto simp add: send_defs Let_def split: if_splits option.splits)
next
  case (stderrMsg m)
  with assms show ?thesis by (auto simp add: send_defs Let_def split: if_splits)
next
  case (stderrErr x)
  with assms show ?thesis
    by (auto simp add: send_defs Let_def split: if_splits option.splits)
next
  case time_After
  with assms show ?thesis by (auto simp add: send_defs Let_def split: if_splits)
qed

lemma stdoutErr_EOF_latched:
  assumes "proc wss = Some p" and "eof v"
  shows "respond_select (stdoutErr (Some EOF)) v wss =
     Inr (True, v\<lparr>stdoutBuf := []\<rparr>,
       wss\<lparr>trace := trace wss
             @ (if stdoutBuf v = [] then []
                else [send \<lparr>Timestamp = clock wss (reads wss), Stdin = [], Stdout = stdoutBuf v,
                        Stderr = [], Result = []\<rparr>])
             @ [Wait_call,
                send \<lparr>Timestamp = clock wss (if stdoutBuf v = [] then reads wss else Suc (reads wss)),
                  Stdin = [], Stdout = [], Stderr = [],
                  Result = (case Wait p of None \<Rightarrow> ''0'' | Some err \<Rightarrow> Sprint err)\<rparr>],
           reads := (if stdoutBuf v = [] then Suc (reads wss) else Suc (Suc (reads wss)))\<rparr>)"
  using assms by (cases v) (simp add: send_defs split: option.splits)

lemma stderrErr_EOF_latched:
  assumes "proc wss = Some p" and "eof v"
  shows "respond_select (stderrErr (Some EOF)) v wss =
     Inr (True, v\<lparr>stderrBuf := []\<rparr>,
       wss\<lparr>trace := trace wss
             @ (if stderrBuf v = [] then []
                else [send \<lparr>Timestamp = clock wss (reads wss), Stdin = [], Stdout = [],
                        Stderr = stderrBuf v, Result = []\<rparr>])
             @ [Wait_call,
                send \<lparr>Timestamp = clock wss (if stderrBuf v = [] then reads wss else Suc (reads wss)),
                  Stdin = [], Stdout = [], Stderr = [],
                  Result = (case Wait p of None \<Rightarrow> ''0'' | Some err \<Rightarrow> Sprint err)\<rparr>],
           reads := (if stderrBuf v = [] then Suc (reads wss) else Suc (Suc (reads wss)))\<rparr>)"
  using assms by (cases v) (simp add: send_defs split: option.splits)

lemma Err_not_EOF:
  assumes "x \<noteq> Some EOF"
  shows "respond_select (stdoutErr x) v wss =
           Inr (True, v, wss\<lparr>trace := trace wss @ [send \<lparr>Timestamp = clock wss (reads wss), Stdin = [],
              Stdout = [], Stderr = [], Result = ''connection closed unexpectedly''\<rparr>],
              reads := Suc (reads wss)\<rparr>)"
    and "respond_select (stderrErr x) v wss =
           Inr (True, v, wss\<lparr>trace := trace wss @ [send \<lparr>Timestamp = clock wss (reads wss), Stdin = [],
              Stdout = [], Stderr = [], Result = ''connection closed unexpectedly''\<rparr>],
              reads := Suc (reads wss)\<rparr>)"
  using assms by (simp_all add: send_defs)

lemma EOF_not_latched:
  assumes "\<not> eof v"
  shows "\<exists>v1 wss1. respond_select (stdoutErr (Some EOF)) v wss = Inr (False, v1, wss1)"
    and "\<exists>v1 wss1. respond_select (stderrErr (Some EOF)) v wss = Inr (False, v1, wss1)"
  using assms by (simp_all add: Let_def)

lemma respond_select_return:
  assumes ret: "respond_select e v wss = Inr (True, v', wss')" and p: "proc wss = Some p"
  shows "proc wss' = proc wss
     \<and> (\<exists>out fin. trace wss' = trace wss @ out @ fin \<and> list_all output_frame out \<and> exit_or_failure p fin)"
proof (cases e)
  case (stdoutMsg m)
  with ret show ?thesis by (auto simp add: Let_def split: if_splits)
next
  case (stderrMsg m)
  with ret show ?thesis by (auto simp add: Let_def split: if_splits)
next
  case time_After
  with ret show ?thesis by (auto simp add: send_defs Let_def split: if_splits)
next
  case (stdoutErr x)
  show ?thesis
  proof (cases "x = Some EOF")
    case False
    from ret stdoutErr Err_not_EOF(1) [OF False, of v wss]
    have w: "wss' = wss\<lparr>trace := trace wss @ [send \<lparr>Timestamp = clock wss (reads wss), Stdin = [],
              Stdout = [], Stderr = [], Result = ''connection closed unexpectedly''\<rparr>],
              reads := Suc (reads wss)\<rparr>" by simp
    have "trace wss' = trace wss @ [] @ [send \<lparr>Timestamp = clock wss (reads wss), Stdin = [],
              Stdout = [], Stderr = [], Result = ''connection closed unexpectedly''\<rparr>]"
      by (simp add: w)
    moreover have "exit_or_failure p [send \<lparr>Timestamp = clock wss (reads wss), Stdin = [],
              Stdout = [], Stderr = [], Result = ''connection closed unexpectedly''\<rparr>]"
      by simp
    moreover have "list_all output_frame []" by simp
    moreover have "proc wss' = proc wss" by (simp add: w)
    ultimately show ?thesis by blast
  next
    case True
    with ret stdoutErr EOF_not_latched(1) [of v wss] have "eof v" by auto
    from ret stdoutErr True stdoutErr_EOF_latched [OF p this]
    have w: "wss' = wss\<lparr>trace := trace wss
             @ (if stdoutBuf v = [] then []
                else [send \<lparr>Timestamp = clock wss (reads wss), Stdin = [], Stdout = stdoutBuf v,
                        Stderr = [], Result = []\<rparr>])
             @ [Wait_call,
                send \<lparr>Timestamp = clock wss (if stdoutBuf v = [] then reads wss else Suc (reads wss)),
                  Stdin = [], Stdout = [], Stderr = [],
                  Result = (case Wait p of None \<Rightarrow> ''0'' | Some err \<Rightarrow> Sprint err)\<rparr>],
           reads := (if stdoutBuf v = [] then Suc (reads wss) else Suc (Suc (reads wss)))\<rparr>"
      by simp
    define out where "out = (if stdoutBuf v = [] then []
                else [send \<lparr>Timestamp = clock wss (reads wss), Stdin = [], Stdout = stdoutBuf v,
                        Stderr = [], Result = []\<rparr>])"
    define f where "f = \<lparr>Timestamp = clock wss (if stdoutBuf v = [] then reads wss else Suc (reads wss)),
                  Stdin = [], Stdout = [], Stderr = [],
                  Result = (case Wait p of None \<Rightarrow> ''0'' | Some err \<Rightarrow> Sprint err)\<rparr>"
    have "trace wss' = trace wss @ out @ [Wait_call, send f]"
      by (simp add: w out_def f_def)
    moreover have "exit_or_failure p [Wait_call, send f]"
      by (simp add: f_def)
    moreover have "list_all output_frame out" by (simp add: out_def)
    moreover have "proc wss' = proc wss" by (simp add: w)
    ultimately show ?thesis by blast
  qed
next
  case (stderrErr x)
  show ?thesis
  proof (cases "x = Some EOF")
    case False
    from ret stderrErr Err_not_EOF(2) [OF False, of v wss]
    have w: "wss' = wss\<lparr>trace := trace wss @ [send \<lparr>Timestamp = clock wss (reads wss), Stdin = [],
              Stdout = [], Stderr = [], Result = ''connection closed unexpectedly''\<rparr>],
              reads := Suc (reads wss)\<rparr>" by simp
    have "trace wss' = trace wss @ [] @ [send \<lparr>Timestamp = clock wss (reads wss), Stdin = [],
              Stdout = [], Stderr = [], Result = ''connection closed unexpectedly''\<rparr>]"
      by (simp add: w)
    moreover have "exit_or_failure p [send \<lparr>Timestamp = clock wss (reads wss), Stdin = [],
              Stdout = [], Stderr = [], Result = ''connection closed unexpectedly''\<rparr>]"
      by simp
    moreover have "list_all output_frame []" by simp
    moreover have "proc wss' = proc wss" by (simp add: w)
    ultimately show ?thesis by blast
  next
    case True
    with ret stderrErr EOF_not_latched(2) [of v wss] have "eof v" by auto
    from ret stderrErr True stderrErr_EOF_latched [OF p this]
    have w: "wss' = wss\<lparr>trace := trace wss
             @ (if stderrBuf v = [] then []
                else [send \<lparr>Timestamp = clock wss (reads wss), Stdin = [], Stdout = [],
                        Stderr = stderrBuf v, Result = []\<rparr>])
             @ [Wait_call,
                send \<lparr>Timestamp = clock wss (if stderrBuf v = [] then reads wss else Suc (reads wss)),
                  Stdin = [], Stdout = [], Stderr = [],
                  Result = (case Wait p of None \<Rightarrow> ''0'' | Some err \<Rightarrow> Sprint err)\<rparr>],
           reads := (if stderrBuf v = [] then Suc (reads wss) else Suc (Suc (reads wss)))\<rparr>"
      by simp
    define out where "out = (if stderrBuf v = [] then []
                else [send \<lparr>Timestamp = clock wss (reads wss), Stdin = [], Stdout = [],
                        Stderr = stderrBuf v, Result = []\<rparr>])"
    define f where "f = \<lparr>Timestamp = clock wss (if stderrBuf v = [] then reads wss else Suc (reads wss)),
                  Stdin = [], Stdout = [], Stderr = [],
                  Result = (case Wait p of None \<Rightarrow> ''0'' | Some err \<Rightarrow> Sprint err)\<rparr>"
    have "trace wss' = trace wss @ out @ [Wait_call, send f]"
      by (simp add: w out_def f_def)
    moreover have "exit_or_failure p [Wait_call, send f]"
      by (simp add: f_def)
    moreover have "list_all output_frame out" by (simp add: out_def)
    moreover have "proc wss' = proc wss" by (simp add: w)
    ultimately show ?thesis by blast
  qed
qed

lemma respond_loop_return:
  assumes "respond_loop ds chans v wss = Inr (True, v', wss')" and "proc wss = Some p"
  shows "proc wss' = proc wss
     \<and> (\<exists>out fin. trace wss' = trace wss @ out @ fin \<and> list_all output_frame out \<and> exit_or_failure p fin)"
  using assms
proof (induction ds arbitrary: chans v wss)
  case Nil
  then show ?case by simp
next
  case (Cons d ds)
  obtain ev chans' where pl: "poll d chans = (ev, chans')" by (cases "poll d chans") auto
  show ?case
  proof (cases ev)
    case None
    with Cons.prems pl have "respond_loop ds chans' v wss = Inr (True, v', wss')" by simp
    from Cons.IH [OF this Cons.prems(2)] show ?thesis .
  next
    case (Some e)
    show ?thesis
    proof (cases "respond_select e v wss")
      case (Inl pn)
      with Cons.prems pl Some show ?thesis by simp
    next
      case (Inr r)
      obtain b v1 wss1 where r: "r = (b, v1, wss1)" by (cases r) auto
      show ?thesis
      proof (cases b)
        case True
        with Cons.prems pl Some Inr r have "v1 = v'" "wss1 = wss'" by simp_all
        with Inr r True have "respond_select e v wss = Inr (True, v', wss')" by simp
        from respond_select_return [OF this Cons.prems(2)] show ?thesis .
      next
        case False
        with Inr r have st: "respond_select e v wss = Inr (False, v1, wss1)" by simp
        from respond_select_continue [OF st]
        obtain out1 where p1: "proc wss1 = proc wss" and t1: "trace wss1 = trace wss @ out1"
          and o1: "list_all output_frame out1" by blast
        from Cons.prems pl Some st have "respond_loop ds chans' v1 wss1 = Inr (True, v', wss')" by simp
        from Cons.IH [OF this] p1 Cons.prems(2)
        obtain out2 fin where p2: "proc wss' = proc wss1" and t2: "trace wss' = trace wss1 @ out2 @ fin"
          and o2: "list_all output_frame out2" and f: "exit_or_failure p fin" by auto
        from t1 t2 have "trace wss' = trace wss @ (out1 @ out2) @ fin" by simp
        moreover from o1 o2 have "list_all output_frame (out1 @ out2)" by simp
        moreover from p1 p2 have "proc wss' = proc wss" by simp
        ultimately show ?thesis using f by blast
      qed
    qed
  qed
qed


lemma respond_loop_continue:
  assumes "respond_loop ds chans v wss = Inr (False, v', wss')"
  shows "proc wss' = proc wss \<and> (\<exists>out. trace wss' = trace wss @ out \<and> list_all output_frame out)"
  using assms
proof (induction ds arbitrary: chans v wss)
  case Nil
  then show ?case by simp
next
  case (Cons d ds)
  obtain ev chans' where pl: "poll d chans = (ev, chans')" by (cases "poll d chans") auto
  show ?case
  proof (cases ev)
    case None
    with Cons.prems pl have "respond_loop ds chans' v wss = Inr (False, v', wss')" by simp
    from Cons.IH [OF this] show ?thesis .
  next
    case (Some e)
    show ?thesis
    proof (cases "respond_select e v wss")
      case (Inl pn)
      with Cons.prems pl Some show ?thesis by simp
    next
      case (Inr r)
      obtain b v1 wss1 where r: "r = (b, v1, wss1)" by (cases r) auto
      show ?thesis
      proof (cases b)
        case True
        with Cons.prems pl Some Inr r show ?thesis by simp
      next
        case False
        with Inr r have st: "respond_select e v wss = Inr (False, v1, wss1)" by simp
        from respond_select_continue [OF st]
        obtain out1 where p1: "proc wss1 = proc wss" and t1: "trace wss1 = trace wss @ out1"
          and o1: "list_all output_frame out1" by blast
        from Cons.prems pl Some st have "respond_loop ds chans' v1 wss1 = Inr (False, v', wss')" by simp
        from Cons.IH [OF this]
        obtain out2 where p2: "proc wss' = proc wss1" and t2: "trace wss' = trace wss1 @ out2"
          and o2: "list_all output_frame out2" by auto
        from t1 t2 have "trace wss' = trace wss @ (out1 @ out2)" by simp
        moreover from o1 o2 have "list_all output_frame (out1 @ out2)" by simp
        moreover from p1 p2 have "proc wss' = proc wss" by simp
        ultimately show ?thesis by blast
      qed
    qed
  qed
qed

lemma exit_or_failure_cases:
  assumes "exit_or_failure p fin"
  shows "\<exists>f. Stdin f = [] \<and> Stdout f = [] \<and> Stderr f = []
     \<and> (fin = [Wait_call, send f] \<and> Result f = (case Wait p of None \<Rightarrow> ''0'' | Some err \<Rightarrow> Sprint err)
        \<or> fin = [send f] \<and> Result f = ''connection closed unexpectedly'')"
  using assms by (induction p fin rule: exit_or_failure.induct) simp_all

lemma respond_returned:
  assumes "respond sched wss = Inr (True, wss')" and "proc wss = Some p"
  shows "proc wss' = None
     \<and> (\<exists>out f. list_all output_frame out \<and> Stdin f = [] \<and> Stdout f = [] \<and> Stderr f = []
          \<and> (trace wss' = trace wss @ out @ [Wait_call, send f, Close_call]
               \<and> Result f = (case Wait p of None \<Rightarrow> ''0'' | Some err \<Rightarrow> Sprint err)
             \<or> trace wss' = trace wss @ out @ [send f, Close_call]
               \<and> Result f = ''connection closed unexpectedly''))"
proof -
  let ?loop = "respond_loop sched (pipe (Stdout_reader p), pipe (Stderr_reader p)) respond_vars0 wss"
  from assms obtain v1 wss1 where l: "?loop = Inr (True, v1, wss1)"
    and w: "wss' = (log_call Close_call wss1)\<lparr>proc := None\<rparr>"
    by (auto simp add: respond_def split: sum.splits bool.splits prod.splits if_splits)
  from respond_loop_return [OF l assms(2)]
  obtain out fin where t: "trace wss1 = trace wss @ out @ fin" and o: "list_all output_frame out"
    and f: "exit_or_failure p fin" by blast
  from exit_or_failure_cases [OF f]
  obtain f where ff: "Stdin f = []" "Stdout f = []" "Stderr f = []"
    and d: "fin = [Wait_call, send f] \<and> Result f = (case Wait p of None \<Rightarrow> ''0'' | Some err \<Rightarrow> Sprint err)
        \<or> fin = [send f] \<and> Result f = ''connection closed unexpectedly''" by blast
  have "proc wss' = None" by (simp add: w)
  moreover from t d have "trace wss' = trace wss @ out @ [Wait_call, send f, Close_call]
               \<and> Result f = (case Wait p of None \<Rightarrow> ''0'' | Some err \<Rightarrow> Sprint err)
             \<or> trace wss' = trace wss @ out @ [send f, Close_call]
               \<and> Result f = ''connection closed unexpectedly''"
    by (auto simp add: w log_call_def)
  ultimately show ?thesis using o ff by blast
qed

lemma respond_selecting:
  assumes "respond sched wss = Inr (False, wss')"
  shows "proc wss' = proc wss \<and> (\<exists>out. trace wss' = trace wss @ out \<and> list_all output_frame out)"
proof -
  from assms obtain p v1 where "proc wss = Some p"
    and "respond_loop sched (pipe (Stdout_reader p), pipe (Stderr_reader p)) respond_vars0 wss
           = Inr (False, v1, wss')"
    by (auto simp add: respond_def split: option.splits sum.splits bool.splits prod.splits if_splits)
  from respond_loop_continue [OF this(2)] show ?thesis .
qed

text \<open>
  The latch: \<open>respond\<close> starts with \<open>eof\<close> unset, and the EOF of a stream that
  arrives with the latch unset flushes the accumulator of that stream, sets the latch
  and goes round the loop again without calling \<open>Wait\<close>.
\<close>

lemma EOF_first:
  assumes "\<not> eof v"
  shows "respond_select (stdoutErr (Some EOF)) v wss =
           Inr (False, v\<lparr>stdoutBuf := [], eof := True\<rparr>,
             wss\<lparr>trace := trace wss
                 @ (if stdoutBuf v = [] then []
                    else [send \<lparr>Timestamp = clock wss (reads wss), Stdin = [], Stdout = stdoutBuf v,
                            Stderr = [], Result = []\<rparr>]),
               reads := (if stdoutBuf v = [] then reads wss else Suc (reads wss))\<rparr>)"
    and "respond_select (stderrErr (Some EOF)) v wss =
           Inr (False, v\<lparr>stderrBuf := [], eof := True\<rparr>,
             wss\<lparr>trace := trace wss
                 @ (if stderrBuf v = [] then []
                    else [send \<lparr>Timestamp = clock wss (reads wss), Stdin = [], Stdout = [],
                            Stderr = stderrBuf v, Result = []\<rparr>]),
               reads := (if stderrBuf v = [] then reads wss else Suc (reads wss))\<rparr>)"
    and "eof respond_vars0 = False"
  using assms by (cases v; cases wss; simp add: send_defs respond_vars0_def)+

text \<open>
  What the exit path does for every schedule. While a child is present, the EOF of a
  stream that arrives with the latch set flushes the accumulator of that stream if it
  is not empty, then calls \<open>Wait\<close>, then sends one frame whose \<open>Result\<close> is the
  rendering of the error of \<open>Wait\<close>, or \<open>0\<close> when there is none, and returns. In
  every run of the responder that returns, all frames before the last are output
  frames, \<open>Wait\<close> is called at most once, the exit frame directly follows that call
  and is the last frame, and \<open>Close\<close> and the release of the child slot come after
  it. A run that has not returned has sent output frames only.
\<close>

lemma respond_exit_terminality:
  assumes "proc wss = Some p"
  shows "(eof v \<longrightarrow>
            respond_select (stdoutErr (Some EOF)) v wss =
              Inr (True, v\<lparr>stdoutBuf := []\<rparr>,
                wss\<lparr>trace := trace wss
                  @ (if stdoutBuf v = [] then []
                     else [send \<lparr>Timestamp = clock wss (reads wss), Stdin = [], Stdout = stdoutBuf v,
                             Stderr = [], Result = []\<rparr>])
                  @ [Wait_call,
                     send \<lparr>Timestamp = clock wss (if stdoutBuf v = [] then reads wss else Suc (reads wss)),
                       Stdin = [], Stdout = [], Stderr = [],
                       Result = (case Wait p of None \<Rightarrow> ''0'' | Some err \<Rightarrow> Sprint err)\<rparr>],
                  reads := (if stdoutBuf v = [] then Suc (reads wss) else Suc (Suc (reads wss)))\<rparr>)
          \<and> respond_select (stderrErr (Some EOF)) v wss =
              Inr (True, v\<lparr>stderrBuf := []\<rparr>,
                wss\<lparr>trace := trace wss
                  @ (if stderrBuf v = [] then []
                     else [send \<lparr>Timestamp = clock wss (reads wss), Stdin = [], Stdout = [],
                             Stderr = stderrBuf v, Result = []\<rparr>])
                  @ [Wait_call,
                     send \<lparr>Timestamp = clock wss (if stderrBuf v = [] then reads wss else Suc (reads wss)),
                       Stdin = [], Stdout = [], Stderr = [],
                       Result = (case Wait p of None \<Rightarrow> ''0'' | Some err \<Rightarrow> Sprint err)\<rparr>],
                  reads := (if stderrBuf v = [] then Suc (reads wss) else Suc (Suc (reads wss)))\<rparr>))
    \<and> (\<forall>wss'. respond sched wss = Inr (True, wss') \<longrightarrow>
          proc wss' = None
          \<and> (\<exists>out f. list_all output_frame out \<and> Stdin f = [] \<and> Stdout f = [] \<and> Stderr f = []
               \<and> (trace wss' = trace wss @ out @ [Wait_call, send f, Close_call]
                    \<and> Result f = (case Wait p of None \<Rightarrow> ''0'' | Some err \<Rightarrow> Sprint err)
                  \<or> trace wss' = trace wss @ out @ [send f, Close_call]
                    \<and> Result f = ''connection closed unexpectedly'')))
    \<and> (\<forall>wss'. respond sched wss = Inr (False, wss') \<longrightarrow>
          proc wss' = proc wss
          \<and> (\<exists>out. trace wss' = trace wss @ out \<and> list_all output_frame out))"
  using stdoutErr_EOF_latched [OF assms, of v] stderrErr_EOF_latched [OF assms, of v]
    respond_returned [OF _ assms, of sched] respond_selecting [of sched wss]
  by blast

section \<open>The claims\<close>

subsection \<open>C1: a failed spawn\<close>

text \<open>
  C1 says that when a spawn request arrives while no child is present and the factory
  returns an error, the reader sends the fixed error frame, the child slot stays empty
  and no responder becomes active. The code sends the frame and leaves the slot empty,
  but it falls out of the \<open>switch\<close> to \<open>go wss.respond()\<close>: only the paths for a
  missing \<open>Argv\<close> and for the other actions \<open>continue\<close>. For each of \<open>FORK\<close>,
  \<open>OPEN\<close> and \<open>EXEC\<close> with failing factories the trace ends with \<open>go_respond\<close>,
  and the responder started on the empty slot panics at \<open>wss.proc.Stdout()\<close>.
\<close>

theorem Reader_spawn_failure_starts_responder:
  "Reader_body failing_factories fork_sh idle_session =
     Inr (idle_session\<lparr>trace :=
       [CreateTerminal_call [] ''/bin/sh'' [] [] [] (Some 80) (Some 24) None None,
        send \<lparr>Timestamp = 1700000000, Stdin = [], Stdout = [], Stderr = [], Result = ''unable to fork pty''\<rparr>,
        go_respond], reads := 1\<rparr>)
   \<and> Reader_body failing_factories open_pty idle_session =
     Inr (idle_session\<lparr>trace :=
       [OpenTerminal_call None None,
        send \<lparr>Timestamp = 1700000000, Stdin = [], Stdout = [], Stderr = [], Result = ''unable to open pty''\<rparr>,
        go_respond], reads := 1\<rparr>)
   \<and> Reader_body failing_factories exec_ls idle_session =
     Inr (idle_session\<lparr>trace :=
       [CreateCommand_call ''/bin/ls'' [''-l''],
        send \<lparr>Timestamp = 1700000000, Stdin = [], Stdout = [], Stderr = [], Result = ''unable to run exec''\<rparr>,
        go_respond], reads := 1\<rparr>)
   \<and> proc idle_session = None
   \<and> respond [case_time_After] (idle_session\<lparr>trace :=
       [CreateTerminal_call [] ''/bin/sh'' [] [] [] (Some 80) (Some 24) None None,
        send \<lparr>Timestamp = 1700000000, Stdin = [], Stdout = [], Stderr = [], Result = ''unable to fork pty''\<rparr>,
        go_respond], reads := 1\<rparr>) = Inl NilPointerDereference"
  by (simp add: Reader_body_def send_defs FORK_def OPEN_def EXEC_def empty_request_def idle_session_def
        fork_sh_def open_pty_def exec_ls_def failing_factories_def respond_def)

subsection \<open>C2: the timestamp of a frame\<close>

text \<open>
  C2 says that every frame carries the wall-clock time of its production, the frames of
  the periodic flush included. The timer case builds its frame from the zero value of
  \<open>response\<close> and never sets \<open>Timestamp\<close>, unlike every other frame of the file.
  The child writes \<open>a\<close> without a line feed and the timer fires: the frame that
  carries \<open>a\<close> has \<open>Timestamp = 0\<close>, the clock stands at 1700000000 and has not been
  read.
\<close>

theorem respond_periodic_flush_Timestamp_zero:
  "respond prompt_schedule busy_session =
     Inr (False, busy_session\<lparr>trace := [send \<lparr>Timestamp = 0, Stdin = [], Stdout = ''a'',
        Stderr = [], Result = []\<rparr>]\<rparr>)
   \<and> clock busy_session (reads busy_session) = 1700000000"
  by (simp add: respond_def prompt_schedule_def busy_session_def idle_session_def sh_child_def
      pipe_def pipe_run_def respond_vars0_def send_defs)

subsection \<open>C3: the second EOF\<close>

text \<open>
  C3 says that at the second EOF the responder flushes any remaining accumulator
  before it calls \<open>Wait\<close> and sends the exit frame. The child \<open>sh_child\<close> writes the
  byte \<open>a\<close> to stdout and exits. Under \<open>orderly_schedule\<close> the byte is received
  before the EOF of stdout and the trace is the frame with \<open>a\<close>, \<open>Wait\<close>, the
  frame \<open>0\<close>, \<open>Close\<close>. Under \<open>racing_schedule\<close> the EOF of stdout is received
  while the byte still waits in the buffer of \<open>bchan\<close>; the byte then enters
  \<open>stdoutBuf\<close>, the EOF of stderr is the second one, and the code flushes
  \<open>stderrBuf\<close> only: it calls \<open>Wait\<close>, sends \<open>0\<close> and returns with \<open>stdoutBuf\<close>
  still holding \<open>a\<close>. No frame carries the byte the child wrote.
\<close>

theorem respond_second_EOF_leaves_accumulator:
  "respond_loop racing_schedule (pipe (Stdout_reader sh_child), pipe (Stderr_reader sh_child))
       respond_vars0 busy_session
     = Inr (True, \<lparr>eof = True, stdoutBuf = ''a'', stderrBuf = []\<rparr>,
         busy_session\<lparr>trace := [Wait_call,
            send \<lparr>Timestamp = 1700000000, Stdin = [], Stdout = [], Stderr = [], Result = ''0''\<rparr>],
           reads := 1\<rparr>)
   \<and> respond racing_schedule busy_session
     = Inr (True, idle_session\<lparr>trace := [Wait_call,
            send \<lparr>Timestamp = 1700000000, Stdin = [], Stdout = [], Stderr = [], Result = ''0''\<rparr>,
            Close_call], reads := 1\<rparr>)
   \<and> respond orderly_schedule busy_session
     = Inr (True, idle_session\<lparr>trace :=
            [send \<lparr>Timestamp = 1700000000, Stdin = [], Stdout = ''a'', Stderr = [], Result = []\<rparr>,
             Wait_call,
             send \<lparr>Timestamp = 1700000001, Stdin = [], Stdout = [], Stderr = [], Result = ''0''\<rparr>,
             Close_call], reads := 2\<rparr>)
   \<and> respond_select (stderrErr (Some EOF)) \<lparr>eof = True, stdoutBuf = ''a'', stderrBuf = []\<rparr> busy_session
     = Inr (True, \<lparr>eof = True, stdoutBuf = ''a'', stderrBuf = []\<rparr>,
         busy_session\<lparr>trace := [Wait_call,
            send \<lparr>Timestamp = 1700000000, Stdin = [], Stdout = [], Stderr = [], Result = ''0''\<rparr>],
           reads := 1\<rparr>)"
  by (simp add: respond_def racing_schedule_def orderly_schedule_def busy_session_def idle_session_def
      sh_child_def pipe_def pipe_run_def respond_vars0_def send_defs)

subsection \<open>C4: line framing\<close>

text \<open>
  C4: for every byte received on a stream the responder appends it to the accumulator
  of that stream and goes on; exactly when the byte is the line feed it sends the
  accumulator, the line feed included, as one \<open>Stdout\<close> (for stderr, \<open>Stderr\<close>) frame
  stamped with the clock and clears the accumulator. The other accumulator and the
  latch are untouched. Every frame of this path is a line frame: its payload is not
  empty and ends with the line feed.
\<close>

theorem respond_line_framing:
  "(\<exists>v' wss' out. respond_select (stdoutMsg m) v wss = Inr (False, v', wss')
      \<and> trace wss' = trace wss @ out \<and> proc wss' = proc wss
      \<and> (if m = CHR 0x0A
          then stdoutBuf v' = [] \<and> out = [send \<lparr>Timestamp = clock wss (reads wss), Stdin = [],
                   Stdout = stdoutBuf v @ [m], Stderr = [], Result = []\<rparr>]
          else stdoutBuf v' = stdoutBuf v @ [m] \<and> out = [])
      \<and> stderrBuf v' = stderrBuf v \<and> eof v' = eof v
      \<and> list_all line_frame out)
   \<and> (\<exists>v' wss' out. respond_select (stderrMsg m) v wss = Inr (False, v', wss')
      \<and> trace wss' = trace wss @ out \<and> proc wss' = proc wss
      \<and> (if m = CHR 0x0A
          then stderrBuf v' = [] \<and> out = [send \<lparr>Timestamp = clock wss (reads wss), Stdin = [],
                   Stdout = [], Stderr = stderrBuf v @ [m], Result = []\<rparr>]
          else stderrBuf v' = stderrBuf v @ [m] \<and> out = [])
      \<and> stdoutBuf v' = stdoutBuf v \<and> eof v' = eof v
      \<and> list_all line_frame out)"
  by (simp add: send_defs Let_def)

theorem respond_line_framing_witness:
  "respond_select (stdoutMsg (CHR 0x0A)) \<lparr>eof = False, stdoutBuf = ''hi'', stderrBuf = ''e''\<rparr> busy_session
     = Inr (False, \<lparr>eof = False, stdoutBuf = [], stderrBuf = ''e''\<rparr>,
         busy_session\<lparr>trace := [send \<lparr>Timestamp = 1700000000, Stdin = [],
            Stdout = ''hi'' @ [CHR 0x0A], Stderr = [], Result = []\<rparr>], reads := 1\<rparr>)
   \<and> respond_select (stderrMsg (CHR ''x'')) \<lparr>eof = False, stdoutBuf = ''hi'', stderrBuf = ''e''\<rparr> busy_session
     = Inr (False, \<lparr>eof = False, stdoutBuf = ''hi'', stderrBuf = ''ex''\<rparr>, busy_session)"
  using respond_line_framing [of "CHR 0x0A" "\<lparr>eof = False, stdoutBuf = ''hi'', stderrBuf = ''e''\<rparr>" busy_session]
    respond_line_framing [of "CHR ''x''" "\<lparr>eof = False, stdoutBuf = ''hi'', stderrBuf = ''e''\<rparr>" busy_session]
  by (simp add: send_defs busy_session_def idle_session_def)

subsection \<open>C5: input to a running child\<close>

text \<open>
  C5: for an \<open>EXEC\<close> request received while a child is present, the reader writes
  \<open>Argv\<close> joined by single spaces to the child's stdin as one chunk, with nothing
  after the last string. When the write succeeds the one frame it sends is the echo
  frame whose \<open>Stdin\<close> is the joined string; when the write fails the one frame it
  sends has the \<open>Result\<close> \<open>message failed to send\<close>. The child stays in its slot.
\<close>

theorem Reader_busy_EXEC_writes_joined_Argv:
  assumes "proc wss = Some p" and "Action req = EXEC"
  shows "\<exists>wss' f. Reader_body fs req wss = Inr wss'
           \<and> trace wss' = trace wss @ [Stdin_Write_call (strings_Join (Argv req) '' ''), send f]
           \<and> (Argv req \<noteq> [] \<longrightarrow> strings_Join (Argv req) '' ''
                 = concat (map (\<lambda>a. a @ '' '') (butlast (Argv req))) @ last (Argv req))
           \<and> (Stdin_Write p (strings_Join (Argv req) '' '') = None \<longrightarrow>
                 f = \<lparr>Timestamp = clock wss (reads wss),
                   Stdin = strings_Join (Argv req) '' '', Stdout = [], Stderr = [], Result = []\<rparr>)
           \<and> (Stdin_Write p (strings_Join (Argv req) '' '') \<noteq> None \<longrightarrow>
                 f = \<lparr>Timestamp = clock wss (reads wss),
                   Stdin = [], Stdout = [], Stderr = [], Result = ''message failed to send''\<rparr>)
           \<and> proc wss' = proc wss"
  by (simp add: Reader_body_busy_EXEC [OF assms] tx_busy [OF assms(1)] strings_Join_concat)

theorem Reader_busy_EXEC_writes_joined_Argv_witness:
  "proc busy_session = Some sh_child \<and> Action exec_echo_hi = EXEC
   \<and> (\<exists>wss'. Reader_body failing_factories exec_echo_hi busy_session = Inr wss'
         \<and> trace wss' = [Stdin_Write_call ''echo hi'',
              send \<lparr>Timestamp = 1700000000, Stdin = ''echo hi'', Stdout = [], Stderr = [], Result = []\<rparr>]
         \<and> proc wss' = Some sh_child)
   \<and> (\<exists>wss'. Reader_body failing_factories exec_echo_hi (busy_session\<lparr>proc := Some broken_child\<rparr>) = Inr wss'
         \<and> trace wss' = [Stdin_Write_call ''echo hi'',
              send \<lparr>Timestamp = 1700000000, Stdin = [], Stdout = [], Stderr = [],
                    Result = ''message failed to send''\<rparr>]
         \<and> proc wss' = Some broken_child)"
  using Reader_busy_EXEC_writes_joined_Argv [of busy_session sh_child exec_echo_hi failing_factories]
    Reader_busy_EXEC_writes_joined_Argv [of "busy_session\<lparr>proc := Some broken_child\<rparr>" broken_child
      exec_echo_hi failing_factories]
  by (simp add: busy_session_def idle_session_def exec_echo_hi_def empty_request_def sh_child_def
      broken_child_def)

subsection \<open>C6: a nil read handle\<close>

text \<open>
  C6: on a nil reader the goroutine of \<open>pipe\<close> performs one channel operation, the
  send of \<open>io.EOF\<close> on the error channel. Nothing is ever in the byte channel: the
  goroutine cannot run further before that send, a receive of a byte is not ready, the
  receive of the error yields \<open>io.EOF\<close>, and after it the goroutine has ended.
\<close>

theorem pipe_nil_reader:
  "pipe None = \<lparr>goroutine = [echan_send (Some EOF)], bchan = []\<rparr>
   \<and> pipe_run (pipe None) = pipe None
   \<and> poll case_stdoutMsg (pipe None, err) = (None, pipe None, err)
   \<and> poll case_stdoutErr (pipe None, err) = (Some (stdoutErr (Some EOF)), \<lparr>goroutine = [], bchan = []\<rparr>, err)
   \<and> poll case_stderrMsg (out, pipe None) = (None, out, pipe None)
   \<and> poll case_stderrErr (out, pipe None) = (Some (stderrErr (Some EOF)), out, \<lparr>goroutine = [], bchan = []\<rparr>)
   \<and> pipe_run \<lparr>goroutine = [], bchan = []\<rparr> = \<lparr>goroutine = [], bchan = []\<rparr>"
  by (simp add: pipe_def pipe_run_def)

subsection \<open>C7: a request without an action\<close>

text \<open>
  C7: for a decoded request whose \<open>Action\<close> is the empty string, the reader sends one
  frame with the \<open>Result\<close> \<open>required field 'Action'\<close> and does nothing else: the
  child slot is as before, and the loop goes on. When no further input has arrived the
  reader waits in \<open>ReadJSON\<close> in the state after the frame; a following request is
  dispatched from that state; a following decode error ends the loop there and closes
  the websocket.
\<close>

theorem Reader_empty_Action:
  assumes "Action req = []"
  shows "\<exists>wss'. Reader_body fs req wss = Inr wss'
           \<and> trace wss' = trace wss @ [send \<lparr>Timestamp = clock wss (reads wss), Stdin = [], Stdout = [],
                 Stderr = [], Result = ''required field 'Action'' @ [CHR 0x27]\<rparr>]
           \<and> proc wss' = proc wss
           \<and> Reader fs (Some req # rs) wss = Reader fs rs wss'
           \<and> Reader fs [Some req] wss = Inr wss'
           \<and> Reader fs [Some req, Some req2] wss = Reader_body fs req2 wss'
           \<and> Reader fs (Some req # None # rs) wss = Inr (wss'\<lparr>trace := trace wss' @ [ws_Close]\<rparr>)"
proof -
  have body: "Reader_body fs req wss = Inr (send_Result (''required field 'Action'' @ [CHR 0x27]) wss)"
    using assms by (simp add: Reader_body_def)
  have next_body: "Reader fs [Some req2] w = Reader_body fs req2 w" for w
    by (cases "Reader_body fs req2 w") simp_all
  show ?thesis
    using next_body [of "send_Result (''required field 'Action'' @ [CHR 0x27]) wss"]
    by (simp add: body) (simp add: send_defs)
qed

theorem Reader_empty_Action_witness:
  "Action empty_request = []
   \<and> (\<exists>wss'. Reader_body failing_factories empty_request idle_session = Inr wss'
           \<and> trace wss' = [send \<lparr>Timestamp = 1700000000, Stdin = [], Stdout = [],
                 Stderr = [], Result = ''required field 'Action'' @ [CHR 0x27]\<rparr>]
           \<and> proc wss' = None
           \<and> Reader failing_factories [Some empty_request] idle_session = Inr wss')
   \<and> Reader failing_factories [Some empty_request, None] idle_session
       = Inr (idle_session\<lparr>trace := [send \<lparr>Timestamp = 1700000000, Stdin = [], Stdout = [],
                 Stderr = [], Result = ''required field 'Action'' @ [CHR 0x27]\<rparr>, ws_Close],
               reads := 1\<rparr>)
   \<and> Reader failing_factories [Some empty_request, Some resize_request, None] idle_session
       = Inr (idle_session\<lparr>trace := [send \<lparr>Timestamp = 1700000000, Stdin = [], Stdout = [],
                 Stderr = [], Result = ''required field 'Action'' @ [CHR 0x27]\<rparr>,
               send \<lparr>Timestamp = 1700000001, Stdin = [], Stdout = [],
                 Stderr = [], Result = ''no running process''\<rparr>, ws_Close],
               reads := 2\<rparr>)"
  using Reader_empty_Action [of empty_request failing_factories idle_session "[None]" resize_request]
  by (simp add: empty_request_def idle_session_def resize_request_def Reader_body_def send_defs
      FORK_def OPEN_def EXEC_def RESIZE_def)

subsection \<open>C8: a spawn request without arguments\<close>

text \<open>
  C8: for a \<open>FORK\<close> or \<open>EXEC\<close> request with an empty \<open>Argv\<close>, received while no
  child is present, the reader sends one frame with the \<open>Result\<close>
  \<open>missing required field 'Argv'\<close>. That send is all it does: no factory is called,
  no responder is started, and the child slot stays empty.
\<close>

theorem Reader_missing_Argv:
  assumes "proc wss = None" and "Action req = FORK \<or> Action req = EXEC" and "Argv req = []"
  shows "\<exists>wss'. Reader_body fs req wss = Inr wss'
           \<and> trace wss' = trace wss @ [send \<lparr>Timestamp = clock wss (reads wss), Stdin = [], Stdout = [],
                 Stderr = [], Result = ''missing required field 'Argv'' @ [CHR 0x27]\<rparr>]
           \<and> proc wss' = None"
  using assms
  by (auto simp add: Reader_body_def send_defs FORK_def OPEN_def EXEC_def)

theorem Reader_missing_Argv_witness:
  "proc idle_session = None \<and> (Action fork_no_Argv = FORK \<or> Action fork_no_Argv = EXEC)
   \<and> Argv fork_no_Argv = []
   \<and> (\<exists>wss'. Reader_body failing_factories fork_no_Argv idle_session = Inr wss'
           \<and> trace wss' = [send \<lparr>Timestamp = 1700000000, Stdin = [], Stdout = [],
                 Stderr = [], Result = ''missing required field 'Argv'' @ [CHR 0x27]\<rparr>]
           \<and> proc wss' = None)"
  using Reader_missing_Argv [of idle_session fork_no_Argv failing_factories]
  by (simp add: fork_no_Argv_def empty_request_def idle_session_def)

subsection \<open>C9: other requests without a child\<close>

text \<open>
  C9 as stated covers every request that is not a spawn request. A request with an
  empty \<open>Action\<close> is one, and the check for the missing action comes before the
  dispatch: with no child present the reader answers it with
  \<open>required field 'Action'\<close>, not with \<open>no running process\<close>.
\<close>

theorem Reader_empty_Action_not_no_running_process:
  "proc idle_session = None \<and> Action empty_request \<noteq> FORK \<and> Action empty_request \<noteq> OPEN
   \<and> Action empty_request \<noteq> EXEC
   \<and> Reader_body failing_factories empty_request idle_session
       = Inr (idle_session\<lparr>trace := [send \<lparr>Timestamp = 1700000000, Stdin = [], Stdout = [],
                 Stderr = [], Result = ''required field 'Action'' @ [CHR 0x27]\<rparr>], reads := 1\<rparr>)
   \<and> ''required field 'Action'' @ [CHR 0x27] \<noteq> ''no running process''"
  by (simp add: Reader_body_def send_defs FORK_def OPEN_def EXEC_def empty_request_def idle_session_def)

text \<open>
  C9, amended: for every request with a non-empty \<open>Action\<close> other than \<open>FORK\<close>,
  \<open>OPEN\<close> and \<open>EXEC\<close>, received while no child is present, the reader sends one frame
  with the \<open>Result\<close> \<open>no running process\<close>. That send is all it does: nothing is
  called on a process, no responder is started, and the child slot stays empty.
\<close>

theorem Reader_no_running_process:
  assumes "proc wss = None" and "Action req \<noteq> []"
    and "Action req \<noteq> FORK" and "Action req \<noteq> OPEN" and "Action req \<noteq> EXEC"
  shows "\<exists>wss'. Reader_body fs req wss = Inr wss'
           \<and> trace wss' = trace wss @ [send \<lparr>Timestamp = clock wss (reads wss), Stdin = [], Stdout = [],
                 Stderr = [], Result = ''no running process''\<rparr>]
           \<and> proc wss' = None"
  using assms by (simp add: Reader_body_def send_defs)

theorem Reader_no_running_process_witness:
  "proc idle_session = None \<and> Action resize_request \<noteq> [] \<and> Action resize_request \<noteq> FORK
   \<and> Action resize_request \<noteq> OPEN \<and> Action resize_request \<noteq> EXEC
   \<and> (\<exists>wss'. Reader_body failing_factories resize_request idle_session = Inr wss'
           \<and> trace wss' = [send \<lparr>Timestamp = 1700000000, Stdin = [], Stdout = [],
                 Stderr = [], Result = ''no running process''\<rparr>]
           \<and> proc wss' = None)"
  using Reader_no_running_process [of idle_session resize_request failing_factories]
  by (simp add: resize_request_def empty_request_def idle_session_def
      FORK_def OPEN_def EXEC_def RESIZE_def)

subsection \<open>C10: input without arguments\<close>

text \<open>
  C10: an \<open>EXEC\<close> request with an empty \<open>Argv\<close>, received while a child is present,
  is not rejected: the reader writes the empty string to the child's stdin, and when
  the write succeeds the one frame it sends is the echo frame whose \<open>Stdin\<close> is the
  empty string.
\<close>

theorem Reader_busy_empty_Argv_not_rejected:
  assumes "proc wss = Some p" and "Action req = EXEC" and "Argv req = []"
  shows "\<exists>wss' f. Reader_body fs req wss = Inr wss'
           \<and> trace wss' = trace wss @ [Stdin_Write_call [], send f]
           \<and> (Stdin_Write p [] = None \<longrightarrow>
                 f = \<lparr>Timestamp = clock wss (reads wss),
                   Stdin = [], Stdout = [], Stderr = [], Result = []\<rparr>)
           \<and> proc wss' = proc wss"
  using assms(3)
  by (simp add: Reader_body_busy_EXEC [OF assms(1,2)] tx_busy [OF assms(1)])

theorem Reader_busy_empty_Argv_not_rejected_witness:
  "proc busy_session = Some sh_child \<and> Action exec_no_Argv = EXEC \<and> Argv exec_no_Argv = []
   \<and> Stdin_Write sh_child [] = None
   \<and> (\<exists>wss'. Reader_body failing_factories exec_no_Argv busy_session = Inr wss'
         \<and> trace wss' = [Stdin_Write_call [],
               send \<lparr>Timestamp = 1700000000, Stdin = [], Stdout = [], Stderr = [], Result = []\<rparr>]
         \<and> proc wss' = Some sh_child)"
  using Reader_busy_empty_Argv_not_rejected [of busy_session sh_child exec_no_Argv failing_factories]
  by (simp add: busy_session_def idle_session_def exec_no_Argv_def empty_request_def sh_child_def)

end
